theory Spec2Isabelle
  imports Main "HOL-Library.AList"
begin

section \<open>Values exchanged with the server\<close>

text \<open>
  JSON values as the client builds and receives them. An object is an association list in
  insertion order. Numbers are the integral identifiers, limits and line numbers the
  parameter records carry.
\<close>

datatype json =
    JUndefined
  | JNull
  | JBool bool
  | JNum int
  | JStr string
  | JArr "json list"
  | JObj "(string \<times> json) list"

type_synonym obj = "(string \<times> json) list"

subsection \<open>Strings\<close>

text \<open>\<open>s.startsWith(p)\<close>.\<close>

definition startsWith :: "string \<Rightarrow> string \<Rightarrow> bool" where
  "startsWith s p = (take (length p) s = p)"

text \<open>\<open>s.includes(p)\<close>: \<open>p\<close> occurs in \<open>s\<close> as a contiguous run.\<close>

fun string_includes :: "string \<Rightarrow> string \<Rightarrow> bool" where
  "string_includes [] p = (p = [])"
| "string_includes (c # cs) p = (startsWith (c # cs) p \<or> string_includes cs p)"

text \<open>
  \<open>s.replace(pat, rep)\<close> with a string pattern: only the first occurrence is replaced.
  (The replacement used by the client has no \<open>$\<close> pattern.)
\<close>

fun replace :: "string \<Rightarrow> string \<Rightarrow> string \<Rightarrow> string" where
  "replace [] pat rep = (if pat = [] then rep else [])"
| "replace (c # cs) pat rep =
     (if startsWith (c # cs) pat then rep @ drop (length pat) (c # cs)
      else c # replace cs pat rep)"

text \<open>A number inside a template literal: its decimal digits, with a sign when negative.\<close>

fun digits :: "nat \<Rightarrow> string" where
  "digits n =
     (if n < 10 then [char_of (48 + n)]
      else digits (n div 10) @ [char_of (48 + n mod 10)])"

definition number_to_string :: "int \<Rightarrow> string" where
  "number_to_string i = (if i < 0 then CHR ''-'' # digits (nat (- i)) else digits (nat i))"

subsection \<open>Truthiness and object spread\<close>

text \<open>
  \<open>x ? f(x) : {}\<close>, \<open>...(x && f(x))\<close> and \<open>if (x) ...\<close> on an optional string: the
  properties are there when the string is present and non-empty. On an optional number:
  when it is present and non-zero. \<open>x !== undefined\<close> only asks for presence.
\<close>

definition when_string :: "string option \<Rightarrow> (string \<Rightarrow> obj) \<Rightarrow> obj" where
  "when_string x f = (case x of None \<Rightarrow> [] | Some v \<Rightarrow> if v \<noteq> [] then f v else [])"

definition when_number :: "int option \<Rightarrow> (int \<Rightarrow> obj) \<Rightarrow> obj" where
  "when_number x f = (case x of None \<Rightarrow> [] | Some v \<Rightarrow> if v \<noteq> 0 then f v else [])"

definition when_defined :: "'a option \<Rightarrow> ('a \<Rightarrow> obj) \<Rightarrow> obj" where
  "when_defined x f = (case x of None \<Rightarrow> [] | Some v \<Rightarrow> f v)"

text \<open>\<open>x || d\<close> on an optional string.\<close>

definition or_else :: "string option \<Rightarrow> string \<Rightarrow> string" where
  "or_else x d = (case x of None \<Rightarrow> d | Some v \<Rightarrow> if v \<noteq> [] then v else d)"

text \<open>
  \<open>{ ...target, ...source }\<close>: every property of \<open>source\<close> is assigned in order; an
  existing key keeps its place and takes the new value, a new key goes to the end.
\<close>

definition spread :: "obj \<Rightarrow> obj \<Rightarrow> obj" where
  "spread target source = fold (\<lambda>(k, v). AList.update k v) source target"

text \<open>Reading a property of an object; a missing key reads as \<open>undefined\<close>.\<close>

definition get_prop :: "obj \<Rightarrow> string \<Rightarrow> json" where
  "get_prop ob k = (case map_of ob k of None \<Rightarrow> JUndefined | Some v \<Rightarrow> v)"

section \<open>The HTTP transport\<close>

datatype verb = GET | POST | PUT | DELETE

text \<open>
  What a method hands to the HTTP instance: the verb, the URL relative to the base, the
  body of a POST or PUT, and the per-request configuration (query parameters, header
  overrides, base URL override), each absent when the method does not pass it.
\<close>

record request =
  request_verb :: verb
  request_url :: string
  request_data :: "json option"
  request_params :: "obj option"
  request_headers :: "obj option"
  request_baseURL :: "string option"

record response =
  response_data :: json
  response_headers :: "(string \<times> string) list"

text \<open>
  A rejected request. The fields are the shape \<open>checkRepositoryPermissions\<close> reads its
  caught value at:
  \<open>{ response?: { data?: { errors?: Array<{ message?: string }> } } }\<close>.
\<close>

record error_item =
  message :: "string option"

record error_data =
  errors :: "error_item list option"

record error_response =
  error_data :: "error_data option"

record axios_error =
  response :: "error_response option"

text \<open>
  The server and the network are a parameter: a function from the request and the remote
  state to the outcome (rejection or response) and the next remote state. The world also
  keeps the log of the exchanges so far: each request issued, with its outcome.
\<close>

type_synonym outcome = "axios_error + response"

type_synonym 's transport = "request \<Rightarrow> 's \<Rightarrow> outcome \<times> 's"

record 's world =
  log :: "(request \<times> outcome) list"
  remote :: 's

type_synonym ('s, 'a) promise = "'s world \<Rightarrow> (axios_error + 'a) \<times> 's world"

definition perform :: "'s transport \<Rightarrow> request \<Rightarrow> ('s, response) promise" where
  "perform srv r w =
     (case srv r (remote w) of
        (out, s') \<Rightarrow> (out, \<lparr>log = log w @ [(r, out)], remote = s'\<rparr>))"

text \<open>\<open>await m\<close> followed by the rest of the method: a rejection leaves the method at once.\<close>

definition await :: "('s, 'a) promise \<Rightarrow> ('a \<Rightarrow> ('s, 'b) promise) \<Rightarrow> ('s, 'b) promise" where
  "await m k w = (case m w of (Inl e, w') \<Rightarrow> (Inl e, w') | (Inr a, w') \<Rightarrow> k a w')"

definition resolve :: "'a \<Rightarrow> ('s, 'a) promise" where
  "resolve a w = (Inr a, w)"

text \<open>
  \<open>try { await m } catch (error) { ... }\<close>: the outcome of \<open>m\<close> becomes a value, and the
  method goes on with a case distinction on it.
\<close>

definition attempt :: "('s, 'a) promise \<Rightarrow> ('s, axios_error + 'a) promise" where
  "attempt m w = (case m w of (out, w') \<Rightarrow> (Inr out, w'))"

text \<open>The per-request configuration object; \<open>no_config\<close> is a call without one.\<close>

record config =
  config_params :: "obj option"
  config_headers :: "obj option"
  config_baseURL :: "string option"

definition no_config :: config where
  "no_config = \<lparr>config_params = None, config_headers = None, config_baseURL = None\<rparr>"

definition issue :: "'s transport \<Rightarrow> verb \<Rightarrow> string \<Rightarrow> json option \<Rightarrow> config \<Rightarrow> ('s, response) promise" where
  "issue srv v u d cfg =
     perform srv \<lparr>request_verb = v, request_url = u, request_data = d,
       request_params = config_params cfg, request_headers = config_headers cfg,
       request_baseURL = config_baseURL cfg\<rparr>"

definition client_get :: "'s transport \<Rightarrow> string \<Rightarrow> config \<Rightarrow> ('s, response) promise" where
  "client_get srv u cfg = issue srv GET u None cfg"

definition client_delete :: "'s transport \<Rightarrow> string \<Rightarrow> config \<Rightarrow> ('s, response) promise" where
  "client_delete srv u cfg = issue srv DELETE u None cfg"

definition client_post :: "'s transport \<Rightarrow> string \<Rightarrow> json \<Rightarrow> config \<Rightarrow> ('s, response) promise" where
  "client_post srv u d cfg = issue srv POST u (Some d) cfg"

definition client_put :: "'s transport \<Rightarrow> string \<Rightarrow> json \<Rightarrow> config \<Rightarrow> ('s, response) promise" where
  "client_put srv u d cfg = issue srv PUT u (Some d) cfg"

section \<open>The client\<close>

subsection \<open>Construction\<close>

record BitbucketClientConfig =
  token :: string
  baseUrl :: string
  axiosConfig :: "obj option"

text \<open>The HTTP instance holds the defaults it was created with.\<close>

record client =
  defaults :: obj

definition axios_create :: "obj \<Rightarrow> client" where
  "axios_create cfg = \<lparr>defaults = cfg\<rparr>"

text \<open>\<open>axiosConfig.headers\<close> as the object to spread; nothing when it is absent.\<close>

definition headers_of :: "obj \<Rightarrow> obj" where
  "headers_of cfg = (case map_of cfg ''headers'' of Some (JObj h) \<Rightarrow> h | _ \<Rightarrow> [])"

definition BitbucketClient :: "BitbucketClientConfig \<Rightarrow> client" where
  "BitbucketClient cfg =
     (let axiosConfig = (case axiosConfig cfg of None \<Rightarrow> [] | Some a \<Rightarrow> a) in
      axios_create
        (AList.update ''headers''
           (JObj (AList.update ''Content-Type'' (JStr ''application/json'')
                   (AList.update ''Authorization'' (JStr (''Bearer '' @ token cfg))
                     (spread [] (headers_of axiosConfig)))))
           (AList.update ''baseURL'' (JStr (baseUrl cfg @ ''/rest/api/latest''))
             (spread [] axiosConfig))))"

text \<open>\<open>this.client.defaults.baseURL?.replace('/rest/api/latest', '/rest')\<close>.\<close>

definition plugin_baseURL :: "client \<Rightarrow> string option" where
  "plugin_baseURL this =
     (case get_prop (defaults this) ''baseURL'' of
        JStr b \<Rightarrow> Some (replace b ''/rest/api/latest'' ''/rest'')
      | _ \<Rightarrow> None)"

subsection \<open>Users, projects, repositories\<close>

text \<open>The optional parameter record of \<open>getAllUsers\<close>, with its one field \<open>filter\<close>.\<close>

record GetAllUsersParams =
  filter' :: "string option"

definition getUserProfile :: "'s transport \<Rightarrow> string \<Rightarrow> ('s, json) promise" where
  "getUserProfile srv username =
     await (client_get srv (''/users/'' @ username) no_config)
       (\<lambda>response. resolve (response_data response))"

definition getAllUsers :: "'s transport \<Rightarrow> GetAllUsersParams option \<Rightarrow> ('s, json) promise" where
  "getAllUsers srv params =
     await (client_get srv ''/users''
         (no_config\<lparr>config_params :=
            Some (when_string (case params of None \<Rightarrow> None | Some p \<Rightarrow> filter' p)
                    (\<lambda>f. [(''filter'', JStr f)]))\<rparr>))
       (\<lambda>response. resolve (response_data response))"

definition listProjects :: "'s transport \<Rightarrow> obj option \<Rightarrow> ('s, json) promise" where
  "listProjects srv params =
     await (client_get srv ''/projects'' (no_config\<lparr>config_params := params\<rparr>))
       (\<lambda>response. resolve (response_data response))"

definition listRepositories :: "'s transport \<Rightarrow> string \<Rightarrow> ('s, json) promise" where
  "listRepositories srv projectKey =
     await (client_get srv (''/projects/'' @ projectKey @ ''/repos'') no_config)
       (\<lambda>response. resolve (response_data response))"

definition getRepository :: "'s transport \<Rightarrow> string \<Rightarrow> string \<Rightarrow> ('s, json) promise" where
  "getRepository srv projectKey repositorySlug =
     await (client_get srv (''/projects/'' @ projectKey @ ''/repos/'' @ repositorySlug) no_config)
       (\<lambda>response. resolve (response_data response))"

subsection \<open>Pull requests\<close>

definition getInboxPullRequests :: "'s transport \<Rightarrow> obj option \<Rightarrow> ('s, json) promise" where
  "getInboxPullRequests srv params =
     await (client_get srv ''/inbox/pull-requests'' (no_config\<lparr>config_params := params\<rparr>))
       (\<lambda>response. resolve (response_data response))"

definition getDashboardPullRequests :: "'s transport \<Rightarrow> obj option \<Rightarrow> ('s, json) promise" where
  "getDashboardPullRequests srv params =
     await (client_get srv ''/dashboard/pull-requests''
         (no_config\<lparr>config_params :=
            Some (spread
                    [(''role'', JStr ''AUTHOR''), (''state'', JStr ''OPEN''),
                     (''order'', JStr ''NEWEST'')]
                    (case params of None \<Rightarrow> [] | Some p \<Rightarrow> p))\<rparr>))
       (\<lambda>response. resolve (response_data response))"

definition getPullRequest :: "'s transport \<Rightarrow> string \<Rightarrow> string \<Rightarrow> int \<Rightarrow> ('s, json) promise" where
  "getPullRequest srv projectKey repositorySlug pullRequestId =
     await (client_get srv
         (''/projects/'' @ projectKey @ ''/repos/'' @ repositorySlug @ ''/pull-requests/''
            @ number_to_string pullRequestId)
         no_config)
       (\<lambda>response. resolve (response_data response))"

text \<open>Branch names become full refs unless they already are.\<close>

definition toRefId :: "string \<Rightarrow> string" where
  "toRefId branch = (if startsWith branch ''refs/'' then branch else ''refs/heads/'' @ branch)"

text \<open>
  The keys of the body are pairwise different, so building the object literal with its
  conditional spreads is appending the parts in order.
\<close>

definition createPullRequest ::
  "'s transport \<Rightarrow> string \<Rightarrow> string \<Rightarrow> string \<Rightarrow> string option \<Rightarrow> string \<Rightarrow> string
     \<Rightarrow> string option \<Rightarrow> string option \<Rightarrow> string list option \<Rightarrow> bool option
     \<Rightarrow> ('s, json) promise" where
  "createPullRequest srv projectKey repositorySlug title description fromBranch toBranch
       fromRepositorySlug fromProjectKey reviewers draft =
     (let body = JObj
        ([(''title'', JStr title)]
         @ when_string description (\<lambda>d. [(''description'', JStr d)])
         @ [(''fromRef'', JObj
              ([(''id'', JStr (toRefId fromBranch))]
               @ when_string fromRepositorySlug (\<lambda>slug.
                   [(''repository'', JObj
                      [(''slug'', JStr slug),
                       (''project'', JObj [(''key'', JStr (or_else fromProjectKey projectKey))])])]))),
            (''toRef'', JObj [(''id'', JStr (toRefId toBranch))])]
         @ (case reviewers of
              None \<Rightarrow> []
            | Some rs \<Rightarrow>
                if length rs > 0
                then [(''reviewers'',
                       JArr (map (\<lambda>username. JObj [(''user'', JObj [(''name'', JStr username)])]) rs))]
                else [])
         @ when_defined draft (\<lambda>d. [(''draft'', JBool d)]))
      in await (client_post srv
           (''/projects/'' @ projectKey @ ''/repos/'' @ repositorySlug @ ''/pull-requests'')
           body no_config)
         (\<lambda>response. resolve (response_data response)))"

definition getPullRequestChanges ::
  "'s transport \<Rightarrow> string \<Rightarrow> string \<Rightarrow> int \<Rightarrow> int option \<Rightarrow> ('s, json) promise" where
  "getPullRequestChanges srv projectKey repositorySlug pullRequestId limit =
     await (client_get srv
         (''/projects/'' @ projectKey @ ''/repos/'' @ repositorySlug @ ''/pull-requests/''
            @ number_to_string pullRequestId @ ''/changes'')
         (no_config\<lparr>config_params := Some (when_number limit (\<lambda>l. [(''limit'', JNum l)]))\<rparr>))
       (\<lambda>response. resolve (response_data response))"

definition getPullRequestFileDiff ::
  "'s transport \<Rightarrow> string \<Rightarrow> string \<Rightarrow> int \<Rightarrow> string \<Rightarrow> int option \<Rightarrow> ('s, json) promise" where
  "getPullRequestFileDiff srv projectKey repositorySlug pullRequestId path contextLines =
     await (client_get srv
         (''/projects/'' @ projectKey @ ''/repos/'' @ repositorySlug @ ''/pull-requests/''
            @ number_to_string pullRequestId @ ''/diff/'' @ path)
         (no_config\<lparr>config_params :=
            Some (when_number contextLines (\<lambda>n. [(''contextLines'', JNum n)]))\<rparr>))
       (\<lambda>response. resolve (response_data response))"

datatype diff_format = Text | Json

definition getPullRequestDiff ::
  "'s transport \<Rightarrow> string \<Rightarrow> string \<Rightarrow> int \<Rightarrow> string option \<Rightarrow> string option \<Rightarrow> string option
     \<Rightarrow> int option \<Rightarrow> string option \<Rightarrow> diff_format option \<Rightarrow> ('s, json) promise" where
  "getPullRequestDiff srv projectKey repositorySlug pullRequestId path sinceId untilId
       contextLines whitespace format' =
     (let format = (case format' of None \<Rightarrow> Text | Some f \<Rightarrow> f);
          queryParams =
            when_string sinceId (\<lambda>s. [(''sinceId'', JStr s)])
            @ when_string untilId (\<lambda>u. [(''untilId'', JStr u)])
            @ when_defined contextLines (\<lambda>n. [(''contextLines'', JNum n)])
            @ when_string whitespace (\<lambda>ws. [(''whitespace'', JStr ws)])
      in await (client_get srv
           (''/projects/'' @ projectKey @ ''/repos/'' @ repositorySlug @ ''/pull-requests/''
              @ number_to_string pullRequestId @ ''/diff/'' @ or_else path [])
           (no_config\<lparr>config_params := Some queryParams,
              config_headers :=
                Some [(''Accept'',
                       JStr (if format = Text then ''text/plain'' else ''application/json''))]\<rparr>))
         (\<lambda>response. resolve (response_data response)))"

text \<open>\<open>queryParams\<close> is the rest of the parameter record after the three path fields.\<close>

definition getPullRequestActivities ::
  "'s transport \<Rightarrow> string \<Rightarrow> string \<Rightarrow> int \<Rightarrow> obj \<Rightarrow> ('s, json) promise" where
  "getPullRequestActivities srv projectKey repositorySlug pullRequestId queryParams =
     await (client_get srv
         (''/projects/'' @ projectKey @ ''/repos/'' @ repositorySlug @ ''/pull-requests/''
            @ number_to_string pullRequestId @ ''/activities'')
         (no_config\<lparr>config_params := Some queryParams\<rparr>))
       (\<lambda>response. resolve (response_data response))"

definition addPullRequestComment ::
  "'s transport \<Rightarrow> string \<Rightarrow> string \<Rightarrow> int \<Rightarrow> string \<Rightarrow> int option \<Rightarrow> string option
     \<Rightarrow> int option \<Rightarrow> string option \<Rightarrow> string option \<Rightarrow> ('s, json) promise" where
  "addPullRequestComment srv projectKey repositorySlug pullRequestId text' parentId path line
       lineType fileType =
     (let body = JObj
        ([(''text'', JStr text')]
         @ when_number parentId (\<lambda>i. [(''parent'', JObj [(''id'', JNum i)])])
         @ when_string path (\<lambda>p.
             [(''anchor'', JObj
                ([(''path'', JStr p), (''diffType'', JStr ''EFFECTIVE'')]
                 @ when_defined line (\<lambda>l. [(''line'', JNum l)])
                 @ when_string lineType (\<lambda>t. [(''lineType'', JStr t)])
                 @ when_string fileType (\<lambda>t. [(''fileType'', JStr t)])))]))
      in await (client_post srv
           (''/projects/'' @ projectKey @ ''/repos/'' @ repositorySlug @ ''/pull-requests/''
              @ number_to_string pullRequestId @ ''/comments'')
           body no_config)
         (\<lambda>response. resolve (response_data response)))"

definition deletePullRequestComment ::
  "'s transport \<Rightarrow> string \<Rightarrow> string \<Rightarrow> int \<Rightarrow> int \<Rightarrow> int \<Rightarrow> ('s, unit) promise" where
  "deletePullRequestComment srv projectKey repositorySlug pullRequestId commentId version =
     await (client_delete srv
         (''/projects/'' @ projectKey @ ''/repos/'' @ repositorySlug @ ''/pull-requests/''
            @ number_to_string pullRequestId @ ''/comments/'' @ number_to_string commentId)
         (no_config\<lparr>config_params := Some [(''version'', JNum version)]\<rparr>))
       (\<lambda>response. resolve ())"

text \<open>
  The user slug is read from the headers of the first response; a header that is not
  there reads as \<open>undefined\<close> and is spelled so by the template literal.
\<close>

definition updateReviewStatus ::
  "'s transport \<Rightarrow> string \<Rightarrow> string \<Rightarrow> int \<Rightarrow> string \<Rightarrow> ('s, json) promise" where
  "updateReviewStatus srv projectKey repositorySlug pullRequestId status =
     await (client_get srv ''/application-properties'' no_config)
       (\<lambda>propertiesResponse.
          let userSlug = map_of (response_headers propertiesResponse) ''x-ausername''
          in await (client_put srv
               (''/projects/'' @ projectKey @ ''/repos/'' @ repositorySlug @ ''/pull-requests/''
                  @ number_to_string pullRequestId @ ''/participants/''
                  @ (case userSlug of None \<Rightarrow> ''undefined'' | Some s \<Rightarrow> s))
               (JObj [(''status'', JStr status)]) no_config)
             (\<lambda>response. resolve (response_data response)))"

definition addPullRequestCommentReaction ::
  "'s transport \<Rightarrow> client \<Rightarrow> string \<Rightarrow> string \<Rightarrow> int \<Rightarrow> int \<Rightarrow> string \<Rightarrow> ('s, json) promise" where
  "addPullRequestCommentReaction srv this projectKey repositorySlug pullRequestId commentId emoticon =
     await (client_put srv
         (''/comment-likes/latest/projects/'' @ projectKey @ ''/repos/'' @ repositorySlug
            @ ''/pull-requests/'' @ number_to_string pullRequestId @ ''/comments/''
            @ number_to_string commentId @ ''/reactions/'' @ emoticon)
         (JObj [])
         (no_config\<lparr>config_baseURL := plugin_baseURL this\<rparr>))
       (\<lambda>response. resolve (response_data response))"

definition removePullRequestCommentReaction ::
  "'s transport \<Rightarrow> client \<Rightarrow> string \<Rightarrow> string \<Rightarrow> int \<Rightarrow> int \<Rightarrow> string \<Rightarrow> ('s, unit) promise" where
  "removePullRequestCommentReaction srv this projectKey repositorySlug pullRequestId commentId emoticon =
     await (client_delete srv
         (''/comment-likes/latest/projects/'' @ projectKey @ ''/repos/'' @ repositorySlug
            @ ''/pull-requests/'' @ number_to_string pullRequestId @ ''/comments/''
            @ number_to_string commentId @ ''/reactions/'' @ emoticon)
         (no_config\<lparr>config_baseURL := plugin_baseURL this\<rparr>))
       (\<lambda>response. resolve ())"

definition getRequiredReviewers ::
  "'s transport \<Rightarrow> client \<Rightarrow> string \<Rightarrow> string \<Rightarrow> int \<Rightarrow> string \<Rightarrow> string \<Rightarrow> ('s, json) promise" where
  "getRequiredReviewers srv this projectKey repositorySlug repositoryId sourceBranch targetBranch =
     await (client_get srv
         (''/default-reviewers/latest/projects/'' @ projectKey @ ''/repos/'' @ repositorySlug
            @ ''/reviewers'')
         (no_config\<lparr>config_params :=
            Some [(''sourceRepoId'', JNum repositoryId), (''targetRepoId'', JNum repositoryId),
                  (''sourceRefId'', JStr (toRefId sourceBranch)),
                  (''targetRefId'', JStr (toRefId targetBranch))],
            config_baseURL := plugin_baseURL this\<rparr>))
       (\<lambda>response. resolve (response_data response))"

subsection \<open>Repository contents\<close>

definition browse ::
  "'s transport \<Rightarrow> string \<Rightarrow> string \<Rightarrow> string option \<Rightarrow> string option \<Rightarrow> int option \<Rightarrow> int option
     \<Rightarrow> ('s, json) promise" where
  "browse srv projectKey repositorySlug path at limit start =
     (let queryParams =
            when_string at (\<lambda>a. [(''at'', JStr a)])
            @ when_defined limit (\<lambda>l. [(''limit'', JNum l)])
            @ when_defined start (\<lambda>s. [(''start'', JNum s)])
      in await (client_get srv
           (''/projects/'' @ projectKey @ ''/repos/'' @ repositorySlug @ ''/browse/''
              @ or_else path [])
           (no_config\<lparr>config_params := Some queryParams\<rparr>))
         (\<lambda>response. resolve (response_data response)))"

definition getRawContent ::
  "'s transport \<Rightarrow> string \<Rightarrow> string \<Rightarrow> string \<Rightarrow> string option \<Rightarrow> ('s, json) promise" where
  "getRawContent srv projectKey repositorySlug path at =
     (let queryParams = when_string at (\<lambda>a. [(''at'', JStr a)])
      in await (client_get srv
           (''/projects/'' @ projectKey @ ''/repos/'' @ repositorySlug @ ''/raw/'' @ path)
           (no_config\<lparr>config_params := Some queryParams,
              config_headers := Some [(''Accept'', JStr ''text/plain'')]\<rparr>))
         (\<lambda>response. resolve (response_data response)))"

subsection \<open>The permission probe\<close>

text \<open>The flags \<open>read\<close> and \<open>write\<close> of the result, primed to keep them apart from other names.\<close>

record RepositoryPermissions =
  read' :: bool
  write' :: bool

text \<open>
  \<open>error?.response?.data?.errors?.[0]?.message || ''\<close>: the message of the first error
  of the response, the empty string when any link of the chain is missing.
\<close>

definition first_error_message :: "axios_error \<Rightarrow> string" where
  "first_error_message error =
     (case response error of
        None \<Rightarrow> []
      | Some r \<Rightarrow>
          (case error_data r of
             None \<Rightarrow> []
           | Some d \<Rightarrow>
               (case errors d of
                  None \<Rightarrow> []
                | Some [] \<Rightarrow> []
                | Some (e # _) \<Rightarrow> or_else (message e) [])))"

definition checkRepositoryPermissions ::
  "'s transport \<Rightarrow> string \<Rightarrow> string \<Rightarrow> ('s, RepositoryPermissions) promise" where
  "checkRepositoryPermissions srv projectKey repositorySlug =
     (let repoPath = ''/projects/'' @ projectKey @ ''/repos/'' @ repositorySlug
      in await (attempt (client_get srv repoPath no_config))
           (\<lambda>readProbe. case readProbe of
              Inl _ \<Rightarrow> resolve \<lparr>read' = False, write' = False\<rparr>
            | Inr _ \<Rightarrow>
                await (attempt (client_post srv (repoPath @ ''/branches'') (JObj []) no_config))
                  (\<lambda>writeProbe. case writeProbe of
                     Inr _ \<Rightarrow> resolve \<lparr>read' = True, write' = True\<rparr>
                   | Inl error \<Rightarrow>
                       (let message = first_error_message error;
                            write = (string_includes message ''name''
                                     \<and> string_includes message ''required'')
                        in resolve \<lparr>read' = True, write' = write\<rparr>))))"

subsection \<open>The public methods as one interface\<close>

text \<open>
  The names of the public methods of the class, a call of one of them with its arguments,
  and what a call gives back: the decoded body, nothing, or the permission flags.
\<close>

datatype method_name =
    M_getUserProfile
  | M_getAllUsers
  | M_listProjects
  | M_listRepositories
  | M_getRepository
  | M_getInboxPullRequests
  | M_getDashboardPullRequests
  | M_getPullRequest
  | M_createPullRequest
  | M_getPullRequestChanges
  | M_getPullRequestFileDiff
  | M_getPullRequestDiff
  | M_getPullRequestActivities
  | M_addPullRequestComment
  | M_deletePullRequestComment
  | M_updateReviewStatus
  | M_addPullRequestCommentReaction
  | M_removePullRequestCommentReaction
  | M_getRequiredReviewers
  | M_browse
  | M_getRawContent
  | M_checkRepositoryPermissions

datatype call =
    GetUserProfile string
  | GetAllUsers "GetAllUsersParams option"
  | ListProjects "obj option"
  | ListRepositories string
  | GetRepository string string
  | GetInboxPullRequests "obj option"
  | GetDashboardPullRequests "obj option"
  | GetPullRequest string string int
  | CreatePullRequest string string string "string option" string string
      "string option" "string option" "string list option" "bool option"
  | GetPullRequestChanges string string int "int option"
  | GetPullRequestFileDiff string string int string "int option"
  | GetPullRequestDiff string string int "string option" "string option" "string option"
      "int option" "string option" "diff_format option"
  | GetPullRequestActivities string string int obj
  | AddPullRequestComment string string int string "int option" "string option"
      "int option" "string option" "string option"
  | DeletePullRequestComment string string int int int
  | UpdateReviewStatus string string int string
  | AddPullRequestCommentReaction string string int int string
  | RemovePullRequestCommentReaction string string int int string
  | GetRequiredReviewers string string int string string
  | Browse string string "string option" "string option" "int option" "int option"
  | GetRawContent string string string "string option"
  | CheckRepositoryPermissions string string

fun method_of :: "call \<Rightarrow> method_name" where
  "method_of (GetUserProfile _) = M_getUserProfile"
| "method_of (GetAllUsers _) = M_getAllUsers"
| "method_of (ListProjects _) = M_listProjects"
| "method_of (ListRepositories _) = M_listRepositories"
| "method_of (GetRepository _ _) = M_getRepository"
| "method_of (GetInboxPullRequests _) = M_getInboxPullRequests"
| "method_of (GetDashboardPullRequests _) = M_getDashboardPullRequests"
| "method_of (GetPullRequest _ _ _) = M_getPullRequest"
| "method_of (CreatePullRequest _ _ _ _ _ _ _ _ _ _) = M_createPullRequest"
| "method_of (GetPullRequestChanges _ _ _ _) = M_getPullRequestChanges"
| "method_of (GetPullRequestFileDiff _ _ _ _ _) = M_getPullRequestFileDiff"
| "method_of (GetPullRequestDiff _ _ _ _ _ _ _ _ _) = M_getPullRequestDiff"
| "method_of (GetPullRequestActivities _ _ _ _) = M_getPullRequestActivities"
| "method_of (AddPullRequestComment _ _ _ _ _ _ _ _ _) = M_addPullRequestComment"
| "method_of (DeletePullRequestComment _ _ _ _ _) = M_deletePullRequestComment"
| "method_of (UpdateReviewStatus _ _ _ _) = M_updateReviewStatus"
| "method_of (AddPullRequestCommentReaction _ _ _ _ _) = M_addPullRequestCommentReaction"
| "method_of (RemovePullRequestCommentReaction _ _ _ _ _) = M_removePullRequestCommentReaction"
| "method_of (GetRequiredReviewers _ _ _ _ _) = M_getRequiredReviewers"
| "method_of (Browse _ _ _ _ _ _) = M_browse"
| "method_of (GetRawContent _ _ _ _) = M_getRawContent"
| "method_of (CheckRepositoryPermissions _ _) = M_checkRepositoryPermissions"

datatype result = Data json | Void | Permissions RepositoryPermissions

text \<open>The value a method returns, wrapped; a rejection passes through as it is.\<close>

definition returning :: "('a \<Rightarrow> result) \<Rightarrow> ('s, 'a) promise \<Rightarrow> ('s, result) promise" where
  "returning f m w = (case m w of (Inl e, w') \<Rightarrow> (Inl e, w') | (Inr a, w') \<Rightarrow> (Inr (f a), w'))"

fun invoke :: "'s transport \<Rightarrow> client \<Rightarrow> call \<Rightarrow> ('s, result) promise" where
  "invoke srv this (GetUserProfile username) = returning Data (getUserProfile srv username)"
| "invoke srv this (GetAllUsers ps) = returning Data (getAllUsers srv ps)"
| "invoke srv this (ListProjects ps) = returning Data (listProjects srv ps)"
| "invoke srv this (ListRepositories projectKey) = returning Data (listRepositories srv projectKey)"
| "invoke srv this (GetRepository projectKey repositorySlug) =
     returning Data (getRepository srv projectKey repositorySlug)"
| "invoke srv this (GetInboxPullRequests ps) = returning Data (getInboxPullRequests srv ps)"
| "invoke srv this (GetDashboardPullRequests ps) =
     returning Data (getDashboardPullRequests srv ps)"
| "invoke srv this (GetPullRequest projectKey repositorySlug pullRequestId) =
     returning Data (getPullRequest srv projectKey repositorySlug pullRequestId)"
| "invoke srv this (CreatePullRequest projectKey repositorySlug title description fromBranch
       toBranch fromRepositorySlug fromProjectKey reviewers draft) =
     returning Data (createPullRequest srv projectKey repositorySlug title description
       fromBranch toBranch fromRepositorySlug fromProjectKey reviewers draft)"
| "invoke srv this (GetPullRequestChanges projectKey repositorySlug pullRequestId limit) =
     returning Data (getPullRequestChanges srv projectKey repositorySlug pullRequestId limit)"
| "invoke srv this (GetPullRequestFileDiff projectKey repositorySlug pullRequestId path
       contextLines) =
     returning Data (getPullRequestFileDiff srv projectKey repositorySlug pullRequestId path
       contextLines)"
| "invoke srv this (GetPullRequestDiff projectKey repositorySlug pullRequestId path sinceId
       untilId contextLines whitespace format') =
     returning Data (getPullRequestDiff srv projectKey repositorySlug pullRequestId path
       sinceId untilId contextLines whitespace format')"
| "invoke srv this (GetPullRequestActivities projectKey repositorySlug pullRequestId
       queryParams) =
     returning Data (getPullRequestActivities srv projectKey repositorySlug pullRequestId
       queryParams)"
| "invoke srv this (AddPullRequestComment projectKey repositorySlug pullRequestId text'
       parentId path line lineType fileType) =
     returning Data (addPullRequestComment srv projectKey repositorySlug pullRequestId text'
       parentId path line lineType fileType)"
| "invoke srv this (DeletePullRequestComment projectKey repositorySlug pullRequestId commentId
       version) =
     returning (\<lambda>_. Void) (deletePullRequestComment srv projectKey repositorySlug
       pullRequestId commentId version)"
| "invoke srv this (UpdateReviewStatus projectKey repositorySlug pullRequestId status) =
     returning Data (updateReviewStatus srv projectKey repositorySlug pullRequestId status)"
| "invoke srv this (AddPullRequestCommentReaction projectKey repositorySlug pullRequestId
       commentId emoticon) =
     returning Data (addPullRequestCommentReaction srv this projectKey repositorySlug
       pullRequestId commentId emoticon)"
| "invoke srv this (RemovePullRequestCommentReaction projectKey repositorySlug pullRequestId
       commentId emoticon) =
     returning (\<lambda>_. Void) (removePullRequestCommentReaction srv this projectKey
       repositorySlug pullRequestId commentId emoticon)"
| "invoke srv this (GetRequiredReviewers projectKey repositorySlug repositoryId sourceBranch
       targetBranch) =
     returning Data (getRequiredReviewers srv this projectKey repositorySlug repositoryId
       sourceBranch targetBranch)"
| "invoke srv this (Browse projectKey repositorySlug path at limit start) =
     returning Data (browse srv projectKey repositorySlug path at limit start)"
| "invoke srv this (GetRawContent projectKey repositorySlug path at) =
     returning Data (getRawContent srv projectKey repositorySlug path at)"
| "invoke srv this (CheckRepositoryPermissions projectKey repositorySlug) =
     returning Permissions (checkRepositoryPermissions srv projectKey repositorySlug)"

text \<open>The exchanges a computation adds to the log, and the requests among them.\<close>

definition exchanges :: "('s, 'a) promise \<Rightarrow> 's world \<Rightarrow> (request \<times> outcome) list" where
  "exchanges m w = drop (length (log w)) (log (snd (m w)))"

definition requests :: "('s, 'a) promise \<Rightarrow> 's world \<Rightarrow> request list" where
  "requests m w = map fst (exchanges m w)"

text \<open>
  The base URL a request is sent against: its own override when it has one, the base URL
  of the instance defaults otherwise.
\<close>

definition default_baseURL :: "client \<Rightarrow> string option" where
  "default_baseURL this = (case get_prop (defaults this) ''baseURL'' of JStr b \<Rightarrow> Some b | _ \<Rightarrow> None)"

definition effective_baseURL :: "client \<Rightarrow> request \<Rightarrow> string option" where
  "effective_baseURL this r =
     (case request_baseURL r of Some b \<Rightarrow> Some b | None \<Rightarrow> default_baseURL this)"

subsection \<open>Reading nested values\<close>

text \<open>\<open>json_at j [k1, k2, ...]\<close> is \<open>j.k1.k2...\<close>, \<open>undefined\<close> where a link is missing.\<close>

fun json_at :: "json \<Rightarrow> string list \<Rightarrow> json" where
  "json_at j [] = j"
| "json_at (JObj ob) (k # ks) = json_at (get_prop ob k) ks"
| "json_at _ (k # ks) = JUndefined"

text \<open>\<open>contains s p\<close>: the string \<open>p\<close> occurs somewhere inside \<open>s\<close>.\<close>

definition contains :: "string \<Rightarrow> string \<Rightarrow> bool" where
  "contains s p = (\<exists>before after. s = before @ p @ after)"

section \<open>Concrete servers\<close>

text \<open>
  A scripted server answers the requests it receives with the outcomes of its script, in
  order, whatever the request; past the end of the script every request is rejected
  without a response, as an unreachable host is.
\<close>

definition network_error :: axios_error where
  "network_error = \<lparr>response = None\<rparr>"

definition api_error :: "string \<Rightarrow> axios_error" where
  "api_error msg =
     \<lparr>response = Some \<lparr>error_data = Some \<lparr>errors = Some [\<lparr>message = Some msg\<rparr>]\<rparr>\<rparr>\<rparr>"

definition ok :: "json \<Rightarrow> (string \<times> string) list \<Rightarrow> outcome" where
  "ok body hs = Inr \<lparr>response_data = body, response_headers = hs\<rparr>"

fun scripted :: "outcome list transport" where
  "scripted rq [] = (Inl network_error, [])"
| "scripted rq (out # script) = (out, script)"

definition fresh :: "outcome list \<Rightarrow> outcome list world" where
  "fresh script = \<lparr>log = [], remote = script\<rparr>"

definition example_config :: BitbucketClientConfig where
  "example_config =
     \<lparr>token = ''s3cret'', baseUrl = ''https://git.example.com'',
      axiosConfig = Some
        [(''timeout'', JNum 10000),
         (''baseURL'', JStr ''https://elsewhere.example.org''),
         (''headers'', JObj
            [(''Authorization'', JStr ''Basic abc''),
             (''X-Custom-Header'', JStr ''value''),
             (''Content-Type'', JStr ''text/xml'')])]\<rparr>"

definition example_client :: client where
  "example_client = BitbucketClient example_config"

section \<open>Vocabulary of the statements\<close>

text \<open>A request with nothing but a verb, a URL and possibly a body.\<close>

definition plain_request :: "verb \<Rightarrow> string \<Rightarrow> json option \<Rightarrow> request" where
  "plain_request v u d =
     \<lparr>request_verb = v, request_url = u, request_data = d, request_params = None,
      request_headers = None, request_baseURL = None\<rparr>"


section \<open>Auxiliary facts\<close>

lemmas verb_defs = client_get_def client_post_def client_put_def client_delete_def issue_def

lemma startsWith_iff: "startsWith s p \<longleftrightarrow> (\<exists>rest. s = p @ rest)"
proof
  assume "startsWith s p"
  then have "s = p @ drop (length p) s"
    unfolding startsWith_def by (metis append_take_drop_id)
  then show "\<exists>rest. s = p @ rest" ..
next
  assume "\<exists>rest. s = p @ rest"
  then show "startsWith s p"
    unfolding startsWith_def by auto
qed

lemma string_includes_iff: "string_includes s p \<longleftrightarrow> contains s p"
proof (induction s)
  case Nil
  show ?case by (simp add: contains_def)
next
  case (Cons c cs)
  have "contains (c # cs) p \<longleftrightarrow> (\<exists>after. c # cs = p @ after) \<or> contains cs p"
    unfolding contains_def
    by (auto simp: Cons_eq_append_conv)
  with Cons show ?case
    by (simp add: startsWith_iff)
qed

lemma map_of_spread:
  "distinct (map fst source) \<Longrightarrow> map_of (spread target source) = map_of target ++ map_of source"
  unfolding spread_def
proof (induction source arbitrary: target)
  case Nil
  show ?case by simp
next
  case (Cons kv source)
  obtain k v where kv: "kv = (k, v)" by (cases kv)
  from Cons.prems kv have fresh: "map_of source k = None" and d: "distinct (map fst source)"
    by (auto simp: map_of_eq_None_iff)
  have "map_of (fold (\<lambda>(k, v). AList.update k v) source (AList.update k v target))
          = map_of (AList.update k v target) ++ map_of source"
    by (rule Cons.IH [OF d])
  also have "\<dots> = (map_of target)(k \<mapsto> v) ++ map_of source"
    by (simp only: update_conv')
  also have "\<dots> = map_of target ++ (map_of source)(k \<mapsto> v)"
    using fresh by (auto simp: fun_eq_iff map_add_def split: option.splits)
  also have "\<dots> = map_of target ++ map_of ((k, v) # source)"
    by simp
  finally show ?case
    unfolding kv by (simp only: fold_simps case_prod_conv comp_apply)
qed

lemma await_perform_resolve:
  "await (perform srv rq) (\<lambda>r. resolve (f r)) w =
     (map_sum id f (fst (srv rq (remote w))),
      \<lparr>log = log w @ [(rq, fst (srv rq (remote w)))], remote = snd (srv rq (remote w))\<rparr>)"
  by (cases "srv rq (remote w)")
     (auto simp: await_def perform_def resolve_def split: sum.splits)

lemma exchanges_single:
  "exchanges (await (perform srv rq) (\<lambda>r. resolve (f r))) w = [(rq, fst (srv rq (remote w)))]"
  by (simp add: exchanges_def await_perform_resolve)

lemma requests_single:
  "requests (await (perform srv rq) (\<lambda>r. resolve (f r))) w = [rq]"
  by (simp add: requests_def exchanges_single)

section \<open>Branch references\<close>

text \<open>
  C3. For every branch name \<open>b\<close>, the reference identifier that \<open>createPullRequest\<close> puts
  into the body of its request as \<open>fromRef.id\<close> and \<open>toRef.id\<close>, and that
  \<open>getRequiredReviewers\<close> puts into its query as \<open>sourceRefId\<close> and \<open>targetRefId\<close>, is
  \<open>b\<close> itself when \<open>b\<close> starts with \<open>refs/\<close>, and \<open>refs/heads/\<close> followed by \<open>b\<close>
  otherwise.
\<close>

theorem branch_names_become_full_refs:
  fixes srv :: "'s transport"
  shows
  "(\<exists>rq body. requests (createPullRequest srv projectKey repositorySlug title description
         fromBranch toBranch fromRepositorySlug fromProjectKey reviewers draft) w = [rq]
      \<and> request_data rq = Some body
      \<and> json_at body [''fromRef'', ''id''] =
          JStr (if (\<exists>rest. fromBranch = ''refs/'' @ rest) then fromBranch
                else ''refs/heads/'' @ fromBranch)
      \<and> json_at body [''toRef'', ''id''] =
          JStr (if (\<exists>rest. toBranch = ''refs/'' @ rest) then toBranch
                else ''refs/heads/'' @ toBranch))
   \<and> (\<exists>rq query. requests (getRequiredReviewers srv this projectKey repositorySlug repositoryId
         sourceBranch targetBranch) w = [rq]
      \<and> request_params rq = Some query
      \<and> get_prop query ''sourceRefId'' =
          JStr (if (\<exists>rest. sourceBranch = ''refs/'' @ rest) then sourceBranch
                else ''refs/heads/'' @ sourceBranch)
      \<and> get_prop query ''targetRefId'' =
          JStr (if (\<exists>rest. targetBranch = ''refs/'' @ rest) then targetBranch
                else ''refs/heads/'' @ targetBranch))"
proof -
  have ref: "toRefId b = (if (\<exists>rest. b = ''refs/'' @ rest) then b else ''refs/heads/'' @ b)" for b
    unfolding toRefId_def startsWith_iff by simp
  have from_id: "json_at (JObj ((''title'', t) # when_string description (\<lambda>d. [(''description'', JStr d)])
          @ (''fromRef'', JObj ((''id'', x) # more)) # rest)) [''fromRef'', ''id''] = x"
    for t x more rest
    by (cases description) (simp_all add: when_string_def get_prop_def)
  have to_id: "json_at (JObj ((''title'', t) # when_string description (\<lambda>d. [(''description'', JStr d)])
          @ (''fromRef'', y) # (''toRef'', JObj [(''id'', x)]) # rest)) [''toRef'', ''id''] = x"
    for t x y rest
    by (cases description) (simp_all add: when_string_def get_prop_def)
  have create: "\<exists>rq body. requests (createPullRequest srv projectKey repositorySlug title description
         fromBranch toBranch fromRepositorySlug fromProjectKey reviewers draft) w = [rq]
      \<and> request_data rq = Some body
      \<and> json_at body [''fromRef'', ''id''] = JStr (toRefId fromBranch)
      \<and> json_at body [''toRef'', ''id''] = JStr (toRefId toBranch)"
    unfolding createPullRequest_def Let_def verb_defs requests_single
    by (simp add: from_id to_id del: json_at.simps)
  have reviewers: "\<exists>rq query. requests (getRequiredReviewers srv this projectKey repositorySlug
         repositoryId sourceBranch targetBranch) w = [rq]
      \<and> request_params rq = Some query
      \<and> get_prop query ''sourceRefId'' = JStr (toRefId sourceBranch)
      \<and> get_prop query ''targetRefId'' = JStr (toRefId targetBranch)"
    unfolding getRequiredReviewers_def verb_defs requests_single
    by (simp add: get_prop_def)
  from create reviewers show ?thesis
    unfolding ref by blast
qed


text \<open>The statement at a short branch name and at two names that are already full refs.\<close>

theorem branch_names_become_full_refs_witness:
  "(\<exists>rq body. requests (createPullRequest scripted ''PROJ'' ''my-repo'' ''Add new feature'' None
         ''feature-branch'' ''refs/heads/main'' None None None None) (fresh []) = [rq]
      \<and> request_data rq = Some body
      \<and> json_at body [''fromRef'', ''id''] = JStr ''refs/heads/feature-branch''
      \<and> json_at body [''toRef'', ''id''] = JStr ''refs/heads/main'')
   \<and> (\<exists>rq query. requests (getRequiredReviewers scripted example_client ''PROJ'' ''my-repo'' 42
         ''refs/tags/v1'' ''main'') (fresh []) = [rq]
      \<and> request_params rq = Some query
      \<and> get_prop query ''sourceRefId'' = JStr ''refs/tags/v1''
      \<and> get_prop query ''targetRefId'' = JStr ''refs/heads/main'')"
  using branch_names_become_full_refs [of scripted "''PROJ''" "''my-repo''" "''Add new feature''"
      None "''feature-branch''" "''refs/heads/main''" None None None None "fresh []"
      example_client 42 "''refs/tags/v1''" "''main''"]
  by simp

section \<open>Construction\<close>



section \<open>Dashboard query\<close>

text \<open>
  C8. For every call of \<open>getDashboardPullRequests\<close>, the query parameters sent are the
  defaults \<open>role = AUTHOR\<close>, \<open>state = OPEN\<close>, \<open>order = NEWEST\<close> merged with the caller's
  parameter record: a key the caller supplies has the caller's value, any other key has
  its default (or is absent). The caller's record is an object, so each of its keys occurs
  once.
\<close>

theorem dashboard_query_defaults:
  fixes srv :: "'s transport"
  assumes "distinct (map fst (case params of None \<Rightarrow> [] | Some p \<Rightarrow> p))"
  shows "\<exists>rq query. requests (getDashboardPullRequests srv params) w = [rq]
      \<and> request_params rq = Some query
      \<and> (\<forall>k. map_of query k =
            (case map_of (case params of None \<Rightarrow> [] | Some p \<Rightarrow> p) k of
               Some v \<Rightarrow> Some v
             | None \<Rightarrow> map_of [(''role'', JStr ''AUTHOR''), (''state'', JStr ''OPEN''),
                               (''order'', JStr ''NEWEST'')] k))"
  unfolding getDashboardPullRequests_def verb_defs requests_single
  by (simp add: map_of_spread [OF assms] map_add_def del: map_of.simps)

text \<open>A caller who overrides \<open>state\<close> and adds \<open>limit\<close>.\<close>

theorem dashboard_query_defaults_witness:
  "distinct (map fst [(''state'', JStr ''MERGED''), (''limit'', JNum 5)])
   \<and> (\<exists>rq query. requests (getDashboardPullRequests scripted
           (Some [(''state'', JStr ''MERGED''), (''limit'', JNum 5)])) (fresh []) = [rq]
      \<and> request_params rq = Some query
      \<and> map_of query ''role'' = Some (JStr ''AUTHOR'')
      \<and> map_of query ''state'' = Some (JStr ''MERGED'')
      \<and> map_of query ''order'' = Some (JStr ''NEWEST'')
      \<and> map_of query ''limit'' = Some (JNum 5))"
proof -
  have d: "distinct (map fst (case Some [(''state'', JStr ''MERGED''), (''limit'', JNum 5)] of
             None \<Rightarrow> [] | Some p \<Rightarrow> p))"
    by simp
  from dashboard_query_defaults [OF d, of scripted "fresh []"]
  obtain rq query where
    "requests (getDashboardPullRequests scripted
        (Some [(''state'', JStr ''MERGED''), (''limit'', JNum 5)])) (fresh []) = [rq]"
    "request_params rq = Some query"
    "\<forall>k. map_of query k =
        (case map_of [(''state'', JStr ''MERGED''), (''limit'', JNum 5)] k of
           Some v \<Rightarrow> Some v
         | None \<Rightarrow> map_of [(''role'', JStr ''AUTHOR''), (''state'', JStr ''OPEN''),
                           (''order'', JStr ''NEWEST'')] k)"
    by auto
  then show ?thesis by simp
qed

section \<open>The two-request methods, step by step\<close>

text \<open>
  What \<open>checkRepositoryPermissions\<close> and \<open>updateReviewStatus\<close> compute, by the
  outcomes of their requests.
\<close>

lemma checkRepositoryPermissions_cases:
  fixes srv :: "'s transport"
  shows "checkRepositoryPermissions srv projectKey repositorySlug w =
    (case srv (plain_request GET (''/projects/'' @ projectKey @ ''/repos/'' @ repositorySlug) None)
            (remote w) of
       (Inl e1, s1) \<Rightarrow>
         (Inr \<lparr>read' = False, write' = False\<rparr>,
          \<lparr>log = log w @ [(plain_request GET
              (''/projects/'' @ projectKey @ ''/repos/'' @ repositorySlug) None, Inl e1)],
           remote = s1\<rparr>)
     | (Inr r1, s1) \<Rightarrow>
         (case srv (plain_request POST
                 (''/projects/'' @ projectKey @ ''/repos/'' @ repositorySlug @ ''/branches'')
                 (Some (JObj []))) s1 of
            (out, s2) \<Rightarrow>
              (Inr \<lparr>read' = True,
                    write' = (case out of
                      Inr _ \<Rightarrow> True
                    | Inl e2 \<Rightarrow> string_includes (first_error_message e2) ''name''
                        \<and> string_includes (first_error_message e2) ''required'')\<rparr>,
               \<lparr>log = log w @
                  [(plain_request GET
                      (''/projects/'' @ projectKey @ ''/repos/'' @ repositorySlug) None, Inr r1),
                   (plain_request POST
                      (''/projects/'' @ projectKey @ ''/repos/'' @ repositorySlug @ ''/branches'')
                      (Some (JObj [])), out)],
                remote = s2\<rparr>)))"
  by (simp add: checkRepositoryPermissions_def verb_defs Let_def await_def attempt_def
      perform_def resolve_def no_config_def plain_request_def
      split: prod.splits sum.splits)

lemma updateReviewStatus_cases:
  fixes srv :: "'s transport"
  shows "updateReviewStatus srv projectKey repositorySlug pullRequestId status w =
    (case srv (plain_request GET ''/application-properties'' None) (remote w) of
       (Inl e1, s1) \<Rightarrow>
         (Inl e1,
          \<lparr>log = log w @ [(plain_request GET ''/application-properties'' None, Inl e1)],
           remote = s1\<rparr>)
     | (Inr r1, s1) \<Rightarrow>
         (case srv (plain_request PUT
                 (''/projects/'' @ projectKey @ ''/repos/'' @ repositorySlug @ ''/pull-requests/''
                    @ number_to_string pullRequestId @ ''/participants/''
                    @ (case map_of (response_headers r1) ''x-ausername'' of
                         None \<Rightarrow> ''undefined'' | Some s \<Rightarrow> s))
                 (Some (JObj [(''status'', JStr status)]))) s1 of
            (out, s2) \<Rightarrow>
              (map_sum id response_data out,
               \<lparr>log = log w @
                  [(plain_request GET ''/application-properties'' None, Inr r1),
                   (plain_request PUT
                      (''/projects/'' @ projectKey @ ''/repos/'' @ repositorySlug
                         @ ''/pull-requests/'' @ number_to_string pullRequestId
                         @ ''/participants/''
                         @ (case map_of (response_headers r1) ''x-ausername'' of
                              None \<Rightarrow> ''undefined'' | Some s \<Rightarrow> s))
                      (Some (JObj [(''status'', JStr status)])), out)],
                remote = s2\<rparr>)))"
  by (simp add: updateReviewStatus_def verb_defs Let_def await_def
      perform_def resolve_def no_config_def plain_request_def
      split: prod.splits sum.splits)





section \<open>Permission probe\<close>





section \<open>Review status\<close>

text \<open>
  C7. \<open>updateReviewStatus\<close> first issues a GET to \<open>/application-properties\<close>, reads the
  slug of the authenticated user from the \<open>x-ausername\<close> header of that response, then
  issues a PUT to \<open>participants/<slug>\<close> of the pull request with the body
  \<open>{ status }\<close>, and returns the body of the PUT response (or passes on its rejection).
\<close>

theorem review_status_update_resolves_user_first:
  fixes srv :: "'s transport"
  assumes "srv (plain_request GET ''/application-properties'' None) (remote w) = (Inr r1, s1)"
    and "map_of (response_headers r1) ''x-ausername'' = Some slug"
    and "srv (plain_request PUT
            (''/projects/'' @ projectKey @ ''/repos/'' @ repositorySlug @ ''/pull-requests/''
               @ number_to_string pullRequestId @ ''/participants/'' @ slug)
            (Some (JObj [(''status'', JStr status)]))) s1 = (out, s2)"
  shows "updateReviewStatus srv projectKey repositorySlug pullRequestId status w =
     ((case out of Inl e \<Rightarrow> Inl e | Inr r2 \<Rightarrow> Inr (response_data r2)),
      \<lparr>log = log w @
         [(plain_request GET ''/application-properties'' None, Inr r1),
          (plain_request PUT
             (''/projects/'' @ projectKey @ ''/repos/'' @ repositorySlug @ ''/pull-requests/''
                @ number_to_string pullRequestId @ ''/participants/'' @ slug)
             (Some (JObj [(''status'', JStr status)])), out)],
       remote = s2\<rparr>)"
  using assms by (simp add: updateReviewStatus_cases split: sum.splits)

text \<open>A server that names the user \<open>jdoe\<close> and then accepts the update.\<close>

theorem review_status_update_resolves_user_first_witness:
  "scripted (plain_request GET ''/application-properties'' None)
       (remote (fresh [ok JNull [(''x-ausername'', ''jdoe'')],
                       ok (JObj [(''status'', JStr ''APPROVED'')]) []]))
     = (ok JNull [(''x-ausername'', ''jdoe'')], [ok (JObj [(''status'', JStr ''APPROVED'')]) []])
   \<and> updateReviewStatus scripted ''PROJ'' ''my-repo'' 123 ''APPROVED''
       (fresh [ok JNull [(''x-ausername'', ''jdoe'')],
               ok (JObj [(''status'', JStr ''APPROVED'')]) []])
     = (Inr (JObj [(''status'', JStr ''APPROVED'')]),
        \<lparr>log =
           [(plain_request GET ''/application-properties'' None,
             ok JNull [(''x-ausername'', ''jdoe'')]),
            (plain_request PUT ''/projects/PROJ/repos/my-repo/pull-requests/123/participants/jdoe''
               (Some (JObj [(''status'', JStr ''APPROVED'')])),
             ok (JObj [(''status'', JStr ''APPROVED'')]) [])],
         remote = []\<rparr>)"
proof -
  have n: "number_to_string 123 = ''123''"
    by code_simp
  have a: "scripted (plain_request GET ''/application-properties'' None)
       (remote (fresh [ok JNull [(''x-ausername'', ''jdoe'')],
                       ok (JObj [(''status'', JStr ''APPROVED'')]) []]))
     = (Inr \<lparr>response_data = JNull, response_headers = [(''x-ausername'', ''jdoe'')]\<rparr>,
        [ok (JObj [(''status'', JStr ''APPROVED'')]) []])"
    by (simp add: fresh_def ok_def)
  have b: "map_of (response_headers \<lparr>response_data = JNull,
        response_headers = [(''x-ausername'', ''jdoe'')]\<rparr>) ''x-ausername'' = Some ''jdoe''"
    by simp
  have c: "scripted (plain_request PUT
            (''/projects/'' @ ''PROJ'' @ ''/repos/'' @ ''my-repo'' @ ''/pull-requests/''
               @ number_to_string 123 @ ''/participants/'' @ ''jdoe'')
            (Some (JObj [(''status'', JStr ''APPROVED'')])))
          [ok (JObj [(''status'', JStr ''APPROVED'')]) []]
        = (ok (JObj [(''status'', JStr ''APPROVED'')]) [], [])"
    by simp
  show ?thesis
    using review_status_update_resolves_user_first [OF a b c]
    by (simp add: n fresh_def ok_def)
qed

section \<open>Every method, by its requests\<close>

text \<open>
  All methods but \<open>updateReviewStatus\<close> and \<open>checkRepositoryPermissions\<close> have one
  shape: one request, awaited, and a value computed from its response.
\<close>

lemmas method_defs =
  getUserProfile_def getAllUsers_def listProjects_def listRepositories_def getRepository_def
  getInboxPullRequests_def getDashboardPullRequests_def getPullRequest_def createPullRequest_def
  getPullRequestChanges_def getPullRequestFileDiff_def getPullRequestDiff_def
  getPullRequestActivities_def addPullRequestComment_def deletePullRequestComment_def
  addPullRequestCommentReaction_def removePullRequestCommentReaction_def
  getRequiredReviewers_def browse_def getRawContent_def

lemma returning_await:
  "returning g (await m (\<lambda>r. resolve (f r))) = await m (\<lambda>r. resolve (g (f r)))"
  by (auto simp: returning_def await_def resolve_def fun_eq_iff split: prod.splits sum.splits)

lemma fst_returning: "fst (returning g m w) = map_sum id g (fst (m w))"
  by (cases "m w") (auto simp: returning_def split: sum.splits)

lemma snd_returning: "snd (returning g m w) = snd (m w)"
  by (cases "m w") (auto simp: returning_def split: sum.splits)

lemma exchanges_returning: "exchanges (returning g m) w = exchanges m w"
  by (simp add: exchanges_def snd_returning)

lemma requests_returning: "requests (returning g m) w = requests m w"
  by (simp add: requests_def exchanges_returning)

lemma single_shape:
  assumes "method_of c \<noteq> M_updateReviewStatus" "method_of c \<noteq> M_checkRepositoryPermissions"
  shows "\<exists>rq f. invoke srv this c = await (perform srv rq) (\<lambda>r. resolve (f r))"
  using assms
  apply (cases c; simp add: method_defs verb_defs returning_await Let_def split del: if_split)
  apply (rule exI, rule exI, rule refl)+
  done

lemma is_update:
  "method_of c = M_updateReviewStatus \<Longrightarrow>
     \<exists>projectKey repositorySlug pullRequestId status.
        c = UpdateReviewStatus projectKey repositorySlug pullRequestId status"
  by (cases c) simp_all

lemma is_check:
  "method_of c = M_checkRepositoryPermissions \<Longrightarrow>
     \<exists>projectKey repositorySlug. c = CheckRepositoryPermissions projectKey repositorySlug"
  by (cases c) simp_all

lemma exchanges_updateReviewStatus:
  fixes srv :: "'s transport"
  shows "exchanges (updateReviewStatus srv projectKey repositorySlug pullRequestId status) w =
    (case srv (plain_request GET ''/application-properties'' None) (remote w) of
       (Inl e1, s1) \<Rightarrow> [(plain_request GET ''/application-properties'' None, Inl e1)]
     | (Inr r1, s1) \<Rightarrow>
         [(plain_request GET ''/application-properties'' None, Inr r1),
          (plain_request PUT
             (''/projects/'' @ projectKey @ ''/repos/'' @ repositorySlug
                @ ''/pull-requests/'' @ number_to_string pullRequestId
                @ ''/participants/''
                @ (case map_of (response_headers r1) ''x-ausername'' of
                     None \<Rightarrow> ''undefined'' | Some s \<Rightarrow> s))
             (Some (JObj [(''status'', JStr status)])),
           fst (srv (plain_request PUT
             (''/projects/'' @ projectKey @ ''/repos/'' @ repositorySlug
                @ ''/pull-requests/'' @ number_to_string pullRequestId
                @ ''/participants/''
                @ (case map_of (response_headers r1) ''x-ausername'' of
                     None \<Rightarrow> ''undefined'' | Some s \<Rightarrow> s))
             (Some (JObj [(''status'', JStr status)]))) s1))])"
  by (simp add: exchanges_def updateReviewStatus_cases split: prod.splits sum.splits)

lemma exchanges_checkRepositoryPermissions:
  fixes srv :: "'s transport"
  shows "exchanges (checkRepositoryPermissions srv projectKey repositorySlug) w =
    (case srv (plain_request GET (''/projects/'' @ projectKey @ ''/repos/'' @ repositorySlug) None)
            (remote w) of
       (Inl e1, s1) \<Rightarrow>
         [(plain_request GET (''/projects/'' @ projectKey @ ''/repos/'' @ repositorySlug) None,
           Inl e1)]
     | (Inr r1, s1) \<Rightarrow>
         [(plain_request GET (''/projects/'' @ projectKey @ ''/repos/'' @ repositorySlug) None,
           Inr r1),
          (plain_request POST
             (''/projects/'' @ projectKey @ ''/repos/'' @ repositorySlug @ ''/branches'')
             (Some (JObj [])),
           fst (srv (plain_request POST
             (''/projects/'' @ projectKey @ ''/repos/'' @ repositorySlug @ ''/branches'')
             (Some (JObj []))) s1))])"
  by (simp add: exchanges_def checkRepositoryPermissions_cases split: prod.splits sum.splits)

lemma log_grows:
  fixes srv :: "'s transport"
  shows "log (snd (invoke srv this c w)) = log w @ exchanges (invoke srv this c) w"
proof -
  consider (single) "method_of c \<noteq> M_updateReviewStatus"
      "method_of c \<noteq> M_checkRepositoryPermissions"
    | (update) "method_of c = M_updateReviewStatus"
    | (check) "method_of c = M_checkRepositoryPermissions"
    by blast
  then show ?thesis
  proof cases
    case single
    from single_shape [OF single] obtain rq f
      where "invoke srv this c = await (perform srv rq) (\<lambda>r. resolve (f r))"
      by blast
    then show ?thesis
      by (simp add: exchanges_single await_perform_resolve)
  next
    case update
    then obtain pk rs pr st where "c = UpdateReviewStatus pk rs pr st"
      using is_update by blast
    then show ?thesis
      by (simp add: exchanges_returning snd_returning exchanges_updateReviewStatus
          updateReviewStatus_cases split: prod.splits sum.splits)
  next
    case check
    then obtain pk rs where "c = CheckRepositoryPermissions pk rs"
      using is_check by blast
    then show ?thesis
      by (simp add: exchanges_returning snd_returning exchanges_checkRepositoryPermissions
          checkRepositoryPermissions_cases split: prod.splits sum.splits)
  qed
qed

lemma requests_count_single:
  fixes srv :: "'s transport"
  assumes "method_of c \<noteq> M_updateReviewStatus" "method_of c \<noteq> M_checkRepositoryPermissions"
  shows "length (requests (invoke srv this c) w) = 1"
proof -
  from single_shape [OF assms] obtain rq f
    where "invoke srv this c = await (perform srv rq) (\<lambda>r. resolve (f r))"
    by blast
  then show ?thesis
    by (simp add: requests_single)
qed

lemma requests_distinct:
  fixes srv :: "'s transport"
  shows "distinct (requests (invoke srv this c) w)"
proof -
  consider (single) "method_of c \<noteq> M_updateReviewStatus"
      "method_of c \<noteq> M_checkRepositoryPermissions"
    | (update) "method_of c = M_updateReviewStatus"
    | (check) "method_of c = M_checkRepositoryPermissions"
    by blast
  then show ?thesis
  proof cases
    case single
    from single_shape [OF single] obtain rq f
      where "invoke srv this c = await (perform srv rq) (\<lambda>r. resolve (f r))"
      by blast
    then show ?thesis
      by (simp add: requests_single)
  next
    case update
    then obtain pk rs pr st where "c = UpdateReviewStatus pk rs pr st"
      using is_update by blast
    then show ?thesis
      by (simp add: requests_def exchanges_returning exchanges_updateReviewStatus
          plain_request_def split: prod.splits sum.splits)
  next
    case check
    then obtain pk rs where "c = CheckRepositoryPermissions pk rs"
      using is_check by blast
    then show ?thesis
      by (simp add: requests_def exchanges_returning exchanges_checkRepositoryPermissions
          plain_request_def split: prod.splits sum.splits)
  qed
qed

section \<open>Requests per call\<close>

text \<open>
  C4, as amended. Every public method other than \<open>updateReviewStatus\<close> and
  \<open>checkRepositoryPermissions\<close> issues exactly one HTTP request per call.
  \<open>updateReviewStatus\<close> issues two requests (the lookup, then the update) when its lookup
  is answered, and only the lookup when the lookup is rejected.
  \<open>checkRepositoryPermissions\<close> issues two requests when its read probe is answered and
  one when it is rejected. No call issues the same request twice, so nothing is retried
  and no further page is fetched; the log of a call is the log before it followed by the
  exchanges of the call.
\<close>

theorem requests_per_call:
  fixes srv :: "'s transport"
  shows
  "(method_of c \<noteq> M_updateReviewStatus \<and> method_of c \<noteq> M_checkRepositoryPermissions
      \<longrightarrow> length (requests (invoke srv this c) w) = 1)
   \<and> length (requests (invoke srv this
          (UpdateReviewStatus projectKey repositorySlug pullRequestId status)) w)
       = (if isl (fst (srv (plain_request GET ''/application-properties'' None) (remote w)))
          then 1 else 2)
   \<and> length (requests (invoke srv this (CheckRepositoryPermissions projectKey repositorySlug)) w)
       = (if isl (fst (srv (plain_request GET
              (''/projects/'' @ projectKey @ ''/repos/'' @ repositorySlug) None) (remote w)))
          then 1 else 2)
   \<and> distinct (requests (invoke srv this c) w)
   \<and> log (snd (invoke srv this c w)) = log w @ exchanges (invoke srv this c) w"
proof -
  have update: "length (requests (invoke srv this
          (UpdateReviewStatus projectKey repositorySlug pullRequestId status)) w)
       = (if isl (fst (srv (plain_request GET ''/application-properties'' None) (remote w)))
          then 1 else 2)"
    by (simp add: requests_def exchanges_returning exchanges_updateReviewStatus
        split: prod.splits sum.splits)
  have check: "length (requests (invoke srv this
          (CheckRepositoryPermissions projectKey repositorySlug)) w)
       = (if isl (fst (srv (plain_request GET
              (''/projects/'' @ projectKey @ ''/repos/'' @ repositorySlug) None) (remote w)))
          then 1 else 2)"
    by (simp add: requests_def exchanges_returning exchanges_checkRepositoryPermissions
        split: prod.splits sum.splits)
  show ?thesis
    using update check requests_count_single [of c srv this w]
      requests_distinct [of srv this c w] log_grows [of srv this c w]
    by blast
qed

text \<open>
  C4 as first stated has \<open>updateReviewStatus\<close> issue two requests on every call. Against
  a host that cannot be reached it issues one: the rejected lookup ends the call.
\<close>

theorem requests_per_call_counterexample:
  "length (requests (invoke scripted example_client
      (UpdateReviewStatus ''PROJ'' ''my-repo'' 123 ''APPROVED'')) (fresh [])) = 1"
  by (simp add: requests_def exchanges_returning exchanges_updateReviewStatus fresh_def)

text \<open>
  One request for \<open>getPullRequest\<close>, two for a review-status update whose lookup is
  answered, one for a permission check whose read probe is rejected.
\<close>

theorem requests_per_call_witness:
  "method_of (GetPullRequest ''PROJ'' ''my-repo'' 123) \<noteq> M_updateReviewStatus
   \<and> method_of (GetPullRequest ''PROJ'' ''my-repo'' 123) \<noteq> M_checkRepositoryPermissions
   \<and> length (requests (invoke scripted example_client (GetPullRequest ''PROJ'' ''my-repo'' 123))
        (fresh [])) = 1
   \<and> length (requests (invoke scripted example_client
        (UpdateReviewStatus ''PROJ'' ''my-repo'' 123 ''APPROVED''))
        (fresh [ok JNull [(''x-ausername'', ''jdoe'')]])) = 2
   \<and> length (requests (invoke scripted example_client
        (CheckRepositoryPermissions ''PROJ'' ''my-repo'')) (fresh [])) = 1"
  using requests_per_call [of "GetPullRequest ''PROJ'' ''my-repo'' 123" scripted example_client
      "fresh []" "''PROJ''" "''my-repo''" 123 "''APPROVED''"]
    requests_per_call [of "GetPullRequest ''PROJ'' ''my-repo'' 123" scripted example_client
      "fresh [ok JNull [(''x-ausername'', ''jdoe'')]]" "''PROJ''" "''my-repo''" 123 "''APPROVED''"]
  by (simp add: fresh_def ok_def)

section \<open>Rejections\<close>

text \<open>
  C1, as amended. For every public method other than \<open>checkRepositoryPermissions\<close>: when
  a request of the call is rejected, the call is rejected with that very error, and a call
  is rejected only with the error of one of its own requests. Nothing is caught,
  transformed or retried. (\<open>checkRepositoryPermissions\<close> is the exception: it catches the
  rejections of both of its probes and turns them into permission flags.)
\<close>

theorem rejections_surface_unmodified:
  fixes srv :: "'s transport"
  assumes "method_of c \<noteq> M_checkRepositoryPermissions"
  shows "(\<forall>rq e. (rq, Inl e) \<in> set (exchanges (invoke srv this c) w)
            \<longrightarrow> fst (invoke srv this c w) = Inl e)
       \<and> (\<forall>e. fst (invoke srv this c w) = Inl e
            \<longrightarrow> (\<exists>rq. (rq, Inl e) \<in> set (exchanges (invoke srv this c) w)))"
proof (cases "method_of c = M_updateReviewStatus")
  case False
  from single_shape [OF False assms] obtain rq f
    where "invoke srv this c = await (perform srv rq) (\<lambda>r. resolve (f r))"
    by blast
  then show ?thesis
    by (cases "fst (srv rq (remote w))") (auto simp: exchanges_single await_perform_resolve)
next
  case True
  then obtain pk rs pr st where c: "c = UpdateReviewStatus pk rs pr st"
    using is_update by blast
  obtain o1 s1 where first: "srv (plain_request GET ''/application-properties'' None) (remote w)
      = (o1, s1)"
    by (cases "srv (plain_request GET ''/application-properties'' None) (remote w)")
  show ?thesis
  proof (cases o1)
    case (Inl e1)
    with c first show ?thesis
      by (simp add: exchanges_returning fst_returning exchanges_updateReviewStatus
          updateReviewStatus_cases)
  next
    case (Inr r1)
    define put where "put = plain_request PUT
        (''/projects/'' @ pk @ ''/repos/'' @ rs @ ''/pull-requests/'' @ number_to_string pr
           @ ''/participants/''
           @ (case map_of (response_headers r1) ''x-ausername'' of
                None \<Rightarrow> ''undefined'' | Some s \<Rightarrow> s))
        (Some (JObj [(''status'', JStr st)]))"
    obtain o2 s2 where second: "srv put s1 = (o2, s2)"
      by (cases "srv put s1")
    have ex: "exchanges (invoke srv this c) w
        = [(plain_request GET ''/application-properties'' None, Inr r1), (put, o2)]"
      using c first Inr second
      by (simp add: exchanges_returning exchanges_updateReviewStatus put_def)
    have res: "fst (invoke srv this c w) = map_sum id (\<lambda>r. Data (response_data r)) o2"
      using c first Inr second
      by (cases o2) (simp_all add: fst_returning updateReviewStatus_cases put_def)
    show ?thesis
      unfolding ex res by (cases o2) auto
  qed
qed

text \<open>
  C1 as first stated covers every method. \<open>checkRepositoryPermissions\<close> against a host
  that cannot be reached has its request rejected and still returns a value.
\<close>

theorem rejections_surface_unmodified_counterexample:
  "exchanges (invoke scripted example_client (CheckRepositoryPermissions ''PROJ'' ''my-repo''))
       (fresh [])
     = [(plain_request GET ''/projects/PROJ/repos/my-repo'' None, Inl network_error)]
   \<and> fst (invoke scripted example_client (CheckRepositoryPermissions ''PROJ'' ''my-repo'')
       (fresh []))
     = Inr (Permissions \<lparr>read' = False, write' = False\<rparr>)"
  by (simp add: exchanges_returning fst_returning exchanges_checkRepositoryPermissions
      checkRepositoryPermissions_cases fresh_def)

text \<open>A pull request the server does not know: the caller gets the server's error.\<close>

theorem rejections_surface_unmodified_witness:
  "method_of (GetPullRequest ''PROJ'' ''my-repo'' 999) \<noteq> M_checkRepositoryPermissions
   \<and> (\<exists>rq. (rq, Inl (api_error ''Pull request 999 does not exist''))
         \<in> set (exchanges (invoke scripted example_client (GetPullRequest ''PROJ'' ''my-repo'' 999))
             (fresh [Inl (api_error ''Pull request 999 does not exist'')])))
   \<and> fst (invoke scripted example_client (GetPullRequest ''PROJ'' ''my-repo'' 999)
         (fresh [Inl (api_error ''Pull request 999 does not exist'')]))
       = Inl (api_error ''Pull request 999 does not exist'')"
proof -
  have m: "method_of (GetPullRequest ''PROJ'' ''my-repo'' 999) \<noteq> M_checkRepositoryPermissions"
    by simp
  have r: "fst (invoke scripted example_client (GetPullRequest ''PROJ'' ''my-repo'' 999)
         (fresh [Inl (api_error ''Pull request 999 does not exist'')]))
       = Inl (api_error ''Pull request 999 does not exist'')"
    by (simp add: getPullRequest_def verb_defs returning_await await_perform_resolve fresh_def)
  from rejections_surface_unmodified [OF m, of scripted example_client
      "fresh [Inl (api_error ''Pull request 999 does not exist'')]"] r m
  show ?thesis
    by blast
qed

section \<open>Overrides of the base URL and of the headers\<close>

text \<open>
  Replacing the API suffix of a base URL that does not itself contain it: the suffix
  \<open>/rest/api/latest\<close> does not overlap a shifted copy of itself, so its first occurrence
  in \<open>b @ ''/rest/api/latest''\<close> is the appended one.
\<close>

lemma no_self_overlap:
  "\<forall>n\<in>set [1..<16]. take n ''/rest/api/latest'' \<noteq> drop (16 - n) ''/rest/api/latest''"
  by code_simp


lemma contains_Cons: "contains cs p \<Longrightarrow> contains (c # cs) p"
  unfolding contains_def by (metis append_Cons)

lemma replace_appended_suffix:
  assumes "\<not> contains b ''/rest/api/latest''"
  shows "replace (b @ ''/rest/api/latest'') ''/rest/api/latest'' ''/rest'' = b @ ''/rest''"
  using assms
proof (induction b)
  case Nil
  show ?case by (simp add: startsWith_def)
next
  case (Cons c cs)
  define s where "s = ''/rest/api/latest''"
  have ls: "length s = 16"
    by (simp add: s_def)
  from Cons.prems have "\<not> contains cs s"
    unfolding s_def using contains_Cons by blast
  then have IH: "replace (cs @ s) s ''/rest'' = cs @ ''/rest''"
    unfolding s_def by (rule Cons.IH)
  have "\<not> startsWith ((c # cs) @ s) s"
  proof
    assume "startsWith ((c # cs) @ s) s"
    then obtain rest where "(c # cs) @ s = s @ rest"
      unfolding startsWith_iff by blast
    then obtain us where "(c # cs = s @ us \<and> us @ s = rest)
        \<or> ((c # cs) @ us = s \<and> s = us @ rest)"
      unfolding append_eq_append_conv2 by blast
    then show False
    proof
      assume "c # cs = s @ us \<and> us @ s = rest"
      then have "c # cs = [] @ s @ us" by simp
      then have "contains (c # cs) s"
        unfolding contains_def by blast
      with Cons.prems show False unfolding s_def by blast
    next
      assume ov: "(c # cs) @ us = s \<and> s = us @ rest"
      then have "length ((c # cs) @ us) = length s"
        by simp
      then have len: "Suc (length cs) + length us = 16"
        using ls by simp
      show False
      proof (cases "us = []")
        case True
        with ov have "c # cs = [] @ s @ []" by simp
        then have "contains (c # cs) s"
          unfolding contains_def by blast
        with Cons.prems show False unfolding s_def by blast
      next
        case False
        with len have n: "length us \<in> set [1..<16]"
          by (cases us) auto
        from ov have "s = us @ rest" by simp
        then have t: "take (length us) s = us"
          by simp
        from ov have "s = (c # cs) @ us" by simp
        then have "drop (length (c # cs)) s = us"
          by simp
        moreover from len have "length (c # cs) = 16 - length us"
          by simp
        ultimately have d: "drop (16 - length us) s = us"
          by simp
        from no_self_overlap n
        have "take (length us) s \<noteq> drop (16 - length us) s"
          unfolding s_def by blast
        with t d show False by simp
      qed
    qed
  qed
  then have "replace ((c # cs) @ s) s ''/rest'' = c # replace (cs @ s) s ''/rest''"
    by simp
  with IH show ?case
    unfolding s_def by simp
qed

lemma plain_updateReviewStatus:
  fixes srv :: "'s transport"
  assumes "rq \<in> set (requests (updateReviewStatus srv projectKey repositorySlug pullRequestId status) w)"
  shows "request_headers rq = None \<and> request_baseURL rq = None"
proof -
  obtain o1 s1 where "srv (plain_request GET ''/application-properties'' None) (remote w)
      = (o1, s1)"
    by (cases "srv (plain_request GET ''/application-properties'' None) (remote w)")
  with assms show ?thesis
    by (cases o1)
       (auto simp: requests_def exchanges_updateReviewStatus plain_request_def)
qed

lemma plain_checkRepositoryPermissions:
  fixes srv :: "'s transport"
  assumes "rq \<in> set (requests (checkRepositoryPermissions srv projectKey repositorySlug) w)"
  shows "request_headers rq = None \<and> request_baseURL rq = None"
proof -
  obtain o1 s1 where "srv (plain_request GET
      (''/projects/'' @ projectKey @ ''/repos/'' @ repositorySlug) None) (remote w) = (o1, s1)"
    by (cases "srv (plain_request GET
      (''/projects/'' @ projectKey @ ''/repos/'' @ repositorySlug) None) (remote w)")
  with assms show ?thesis
    by (cases o1)
       (auto simp: requests_def exchanges_checkRepositoryPermissions plain_request_def)
qed

lemma requests_nonempty:
  fixes srv :: "'s transport"
  shows "requests (invoke srv this c) w \<noteq> []"
proof -
  consider (single) "method_of c \<noteq> M_updateReviewStatus"
      "method_of c \<noteq> M_checkRepositoryPermissions"
    | (update) "method_of c = M_updateReviewStatus"
    | (check) "method_of c = M_checkRepositoryPermissions"
    by blast
  then show ?thesis
  proof cases
    case single
    from requests_count_single [OF single, of srv this w] show ?thesis
      by auto
  next
    case update
    then obtain pk rs pr st where "c = UpdateReviewStatus pk rs pr st"
      using is_update by blast
    then show ?thesis
      by (simp add: requests_def exchanges_returning exchanges_updateReviewStatus
          split: prod.splits sum.splits)
  next
    case check
    then obtain pk rs where "c = CheckRepositoryPermissions pk rs"
      using is_check by blast
    then show ?thesis
      by (simp add: requests_def exchanges_returning exchanges_checkRepositoryPermissions
          split: prod.splits sum.splits)
  qed
qed

lemma baseURL_of_requests:
  fixes srv :: "'s transport"
  assumes "rq \<in> set (requests (invoke srv this c) w)"
  shows "request_baseURL rq =
     (if method_of c = M_addPullRequestCommentReaction
         \<or> method_of c = M_removePullRequestCommentReaction
         \<or> method_of c = M_getRequiredReviewers
      then plugin_baseURL this else None)"
  using assms
  by (cases c)
     (simp_all add: requests_returning method_defs verb_defs requests_single Let_def
        no_config_def plain_updateReviewStatus plain_checkRepositoryPermissions
        split del: if_split)

lemma headers_of_requests:
  fixes srv :: "'s transport"
  assumes "rq \<in> set (requests (invoke srv this c) w)"
    and "method_of c \<noteq> M_getRawContent" "method_of c \<noteq> M_getPullRequestDiff"
  shows "request_headers rq = None"
  using assms
  by (cases c)
     (simp_all add: requests_returning method_defs verb_defs requests_single Let_def
        no_config_def plain_updateReviewStatus plain_checkRepositoryPermissions
        split del: if_split)

section \<open>Content negotiation\<close>

text \<open>
  C6. A request is given the header \<open>Accept: text/plain\<close> exactly when it is issued by
  \<open>getRawContent\<close>, or by \<open>getPullRequestDiff\<close> with format \<open>text\<close> or with no format
  (the default is \<open>text\<close>); \<open>getPullRequestDiff\<close> with format \<open>json\<close> sends
  \<open>Accept: application/json\<close>; no other method passes any header of its own.
\<close>

theorem accept_header_overrides:
  fixes srv :: "'s transport"
  shows
  "(\<exists>rq. requests (invoke srv this (GetRawContent projectKey repositorySlug path at)) w = [rq]
      \<and> request_headers rq = Some [(''Accept'', JStr ''text/plain'')])
   \<and> (\<exists>rq. requests (invoke srv this (GetPullRequestDiff projectKey repositorySlug pullRequestId
           path' sinceId untilId contextLines whitespace format')) w = [rq]
      \<and> request_headers rq =
          Some [(''Accept'',
                 JStr (if format' = None \<or> format' = Some Text then ''text/plain''
                       else ''application/json''))])
   \<and> (method_of c \<noteq> M_getRawContent \<and> method_of c \<noteq> M_getPullRequestDiff
      \<longrightarrow> (\<forall>rq \<in> set (requests (invoke srv this c) w). request_headers rq = None))"
proof -
  have raw: "\<exists>rq. requests (invoke srv this (GetRawContent projectKey repositorySlug path at)) w
        = [rq]
      \<and> request_headers rq = Some [(''Accept'', JStr ''text/plain'')]"
    by (simp add: requests_returning getRawContent_def verb_defs requests_single Let_def)
  have diff: "\<exists>rq. requests (invoke srv this (GetPullRequestDiff projectKey repositorySlug
           pullRequestId path' sinceId untilId contextLines whitespace format')) w = [rq]
      \<and> request_headers rq =
          Some [(''Accept'',
                 JStr (if format' = None \<or> format' = Some Text then ''text/plain''
                       else ''application/json''))]"
    by (cases format')
       (simp_all add: requests_returning getPullRequestDiff_def verb_defs requests_single Let_def)
  from raw diff headers_of_requests [of _ srv this c w] show ?thesis
    by blast
qed

text \<open>A JSON diff, a diff with no format, and a file diff, which passes no header.\<close>

theorem accept_header_overrides_witness:
  "(\<exists>rq. requests (invoke scripted example_client
         (GetPullRequestDiff ''PROJ'' ''my-repo'' 123 None None None None None (Some Json)))
         (fresh []) = [rq]
      \<and> request_headers rq = Some [(''Accept'', JStr ''application/json'')])
   \<and> (\<exists>rq. requests (invoke scripted example_client
         (GetPullRequestDiff ''PROJ'' ''my-repo'' 123 None None None None None None))
         (fresh []) = [rq]
      \<and> request_headers rq = Some [(''Accept'', JStr ''text/plain'')])
   \<and> method_of (GetPullRequestFileDiff ''PROJ'' ''my-repo'' 123 ''src/main.ts'' None)
        \<noteq> M_getRawContent
   \<and> method_of (GetPullRequestFileDiff ''PROJ'' ''my-repo'' 123 ''src/main.ts'' None)
        \<noteq> M_getPullRequestDiff
   \<and> map request_headers (requests (invoke scripted example_client
         (GetPullRequestFileDiff ''PROJ'' ''my-repo'' 123 ''src/main.ts'' None)) (fresh []))
       = [None]"
proof -
  have one: "length (requests (invoke scripted example_client
         (GetPullRequestFileDiff ''PROJ'' ''my-repo'' 123 ''src/main.ts'' None)) (fresh [])) = 1"
    by (rule requests_count_single) simp_all
  then obtain rq where rq: "requests (invoke scripted example_client
         (GetPullRequestFileDiff ''PROJ'' ''my-repo'' 123 ''src/main.ts'' None)) (fresh []) = [rq]"
    by (auto simp: length_Suc_conv)
  show ?thesis
    using accept_header_overrides [of scripted example_client "''PROJ''" "''my-repo''"
        "''README''" None "fresh []" 123 None None None None None "Some Json"
        "GetPullRequestFileDiff ''PROJ'' ''my-repo'' 123 ''src/main.ts'' None"]
      accept_header_overrides [of scripted example_client "''PROJ''" "''my-repo''"
        "''README''" None "fresh []" 123 None None None None None None
        "GetPullRequestFileDiff ''PROJ'' ''my-repo'' 123 ''src/main.ts'' None"]
      rq
    by simp
qed

section \<open>Plugin base path\<close>

text \<open>
  C5, as amended. Exactly three methods issue their request with a base URL of their own,
  the base URL of the instance with \<open>/rest/api/latest\<close> replaced by \<open>/rest\<close>:
  \<open>addPullRequestCommentReaction\<close> (PUT), \<open>removePullRequestCommentReaction\<close> (DELETE)
  and \<open>getRequiredReviewers\<close> (GET). The two reaction methods address one URL under
  \<open>/comment-likes/latest/\<close>, the third a URL under \<open>/default-reviewers/latest/\<close>. Every
  other request is issued without a base URL of its own, so against the base URL of the
  instance, \<open>baseUrl + '/rest/api/latest'\<close>. For a client built by the constructor the
  replaced base URL is \<open>baseUrl + '/rest'\<close> whenever \<open>baseUrl\<close> does not itself contain
  \<open>/rest/api/latest\<close>.
\<close>

theorem plugin_base_path:
  fixes srv :: "'s transport"
  shows
  "(\<forall>rq \<in> set (requests (invoke srv this c) w).
      request_baseURL rq =
        (if method_of c = M_addPullRequestCommentReaction
            \<or> method_of c = M_removePullRequestCommentReaction
            \<or> method_of c = M_getRequiredReviewers
         then plugin_baseURL this else None))
   \<and> requests (invoke srv this c) w \<noteq> []
   \<and> (\<exists>rq1 rq2 rq3.
        requests (invoke srv this (AddPullRequestCommentReaction projectKey repositorySlug
          pullRequestId commentId emoticon)) w = [rq1]
      \<and> requests (invoke srv this (RemovePullRequestCommentReaction projectKey repositorySlug
          pullRequestId commentId emoticon)) w = [rq2]
      \<and> requests (invoke srv this (GetRequiredReviewers projectKey repositorySlug repositoryId
          sourceBranch targetBranch)) w = [rq3]
      \<and> request_verb rq1 = PUT \<and> request_verb rq2 = DELETE \<and> request_verb rq3 = GET
      \<and> request_url rq1 = request_url rq2
      \<and> startsWith (request_url rq1) ''/comment-likes/latest/''
      \<and> startsWith (request_url rq3) ''/default-reviewers/latest/'')
   \<and> plugin_baseURL (BitbucketClient cfg)
       = Some (replace (baseUrl cfg @ ''/rest/api/latest'') ''/rest/api/latest'' ''/rest'')
   \<and> default_baseURL (BitbucketClient cfg) = Some (baseUrl cfg @ ''/rest/api/latest'')
   \<and> (\<not> contains (baseUrl cfg) ''/rest/api/latest''
      \<longrightarrow> plugin_baseURL (BitbucketClient cfg) = Some (baseUrl cfg @ ''/rest''))
   \<and> (\<forall>rq \<in> set (requests (invoke srv (BitbucketClient cfg) c) w).
        effective_baseURL (BitbucketClient cfg) rq =
          Some (if method_of c = M_addPullRequestCommentReaction
                  \<or> method_of c = M_removePullRequestCommentReaction
                  \<or> method_of c = M_getRequiredReviewers
                then replace (baseUrl cfg @ ''/rest/api/latest'') ''/rest/api/latest'' ''/rest''
                else baseUrl cfg @ ''/rest/api/latest''))"
proof -
  have three: "\<exists>rq1 rq2 rq3.
        requests (invoke srv this (AddPullRequestCommentReaction projectKey repositorySlug
          pullRequestId commentId emoticon)) w = [rq1]
      \<and> requests (invoke srv this (RemovePullRequestCommentReaction projectKey repositorySlug
          pullRequestId commentId emoticon)) w = [rq2]
      \<and> requests (invoke srv this (GetRequiredReviewers projectKey repositorySlug repositoryId
          sourceBranch targetBranch)) w = [rq3]
      \<and> request_verb rq1 = PUT \<and> request_verb rq2 = DELETE \<and> request_verb rq3 = GET
      \<and> request_url rq1 = request_url rq2
      \<and> startsWith (request_url rq1) ''/comment-likes/latest/''
      \<and> startsWith (request_url rq3) ''/default-reviewers/latest/''"
    by (simp add: requests_returning addPullRequestCommentReaction_def
        removePullRequestCommentReaction_def getRequiredReviewers_def verb_defs
        requests_single startsWith_def)
  have base: "get_prop (defaults (BitbucketClient cfg)) ''baseURL''
      = JStr (baseUrl cfg @ ''/rest/api/latest'')"
    by (simp add: BitbucketClient_def axios_create_def Let_def get_prop_def update_conv')
  have plugin: "plugin_baseURL (BitbucketClient cfg)
       = Some (replace (baseUrl cfg @ ''/rest/api/latest'') ''/rest/api/latest'' ''/rest'')"
    unfolding plugin_baseURL_def base by simp
  have dflt: "default_baseURL (BitbucketClient cfg) = Some (baseUrl cfg @ ''/rest/api/latest'')"
    unfolding default_baseURL_def base by simp
  have nice: "\<not> contains (baseUrl cfg) ''/rest/api/latest''
      \<longrightarrow> plugin_baseURL (BitbucketClient cfg) = Some (baseUrl cfg @ ''/rest'')"
    unfolding plugin using replace_appended_suffix [of "baseUrl cfg"] by blast
  have effective: "effective_baseURL (BitbucketClient cfg) rq =
          Some (if method_of c = M_addPullRequestCommentReaction
                  \<or> method_of c = M_removePullRequestCommentReaction
                  \<or> method_of c = M_getRequiredReviewers
                then replace (baseUrl cfg @ ''/rest/api/latest'') ''/rest/api/latest'' ''/rest''
                else baseUrl cfg @ ''/rest/api/latest'')"
    if "rq \<in> set (requests (invoke srv (BitbucketClient cfg) c) w)" for rq
    using baseURL_of_requests [OF that]
    by (simp add: effective_baseURL_def plugin dflt)
  from baseURL_of_requests [of _ srv this c w] requests_nonempty [of srv this c w]
    three plugin dflt nice effective
  show ?thesis
    by blast
qed

text \<open>Values used by the concrete runs below.\<close>

lemma digits_123: "number_to_string 123 = ''123''"
  by code_simp

lemma digits_456: "number_to_string 456 = ''456''"
  by code_simp

lemma example_plugin_baseURL: "plugin_baseURL example_client = Some ''https://git.example.com/rest''"
  by (simp add: plugin_baseURL_def example_client_def example_config_def BitbucketClient_def
      axios_create_def Let_def get_prop_def update_conv' spread_def startsWith_def)

lemma example_reviewers_request:
  "requests (invoke scripted example_client
       (GetRequiredReviewers ''PROJ'' ''my-repo'' 42 ''feature-branch'' ''main'')) (fresh [])
     = [\<lparr>request_verb = GET,
         request_url = ''/default-reviewers/latest/projects/PROJ/repos/my-repo/reviewers'',
         request_data = None,
         request_params = Some
           [(''sourceRepoId'', JNum 42), (''targetRepoId'', JNum 42),
            (''sourceRefId'', JStr ''refs/heads/feature-branch''),
            (''targetRefId'', JStr ''refs/heads/main'')],
         request_headers = None,
         request_baseURL = Some ''https://git.example.com/rest''\<rparr>]"
  by (simp add: requests_returning getRequiredReviewers_def verb_defs
      requests_single no_config_def example_plugin_baseURL toRefId_def startsWith_def)

lemma example_pull_request_request:
  "requests (invoke scripted example_client (GetPullRequest ''PROJ'' ''my-repo'' 123)) (fresh [])
     = [plain_request GET ''/projects/PROJ/repos/my-repo/pull-requests/123'' None]"
  by (simp add: requests_returning getPullRequest_def verb_defs requests_single no_config_def
      plain_request_def digits_123)

text \<open>
  C5 as first stated counts two endpoints on the plugin base path. Three methods, with
  three different pairs of verb and URL, send their request there.
\<close>

theorem plugin_base_path_counterexample:
  "requests (invoke scripted example_client
       (AddPullRequestCommentReaction ''PROJ'' ''my-repo'' 123 456 ''thumbsup'')) (fresh [])
     = [\<lparr>request_verb = PUT,
         request_url = ''/comment-likes/latest/projects/PROJ/repos/my-repo/pull-requests/123/comments/456/reactions/thumbsup'',
         request_data = Some (JObj []), request_params = None, request_headers = None,
         request_baseURL = Some ''https://git.example.com/rest''\<rparr>]
   \<and> requests (invoke scripted example_client
       (RemovePullRequestCommentReaction ''PROJ'' ''my-repo'' 123 456 ''thumbsup'')) (fresh [])
     = [\<lparr>request_verb = DELETE,
         request_url = ''/comment-likes/latest/projects/PROJ/repos/my-repo/pull-requests/123/comments/456/reactions/thumbsup'',
         request_data = None, request_params = None, request_headers = None,
         request_baseURL = Some ''https://git.example.com/rest''\<rparr>]
   \<and> requests (invoke scripted example_client
       (GetRequiredReviewers ''PROJ'' ''my-repo'' 42 ''feature-branch'' ''main'')) (fresh [])
     = [\<lparr>request_verb = GET,
         request_url = ''/default-reviewers/latest/projects/PROJ/repos/my-repo/reviewers'',
         request_data = None,
         request_params = Some
           [(''sourceRepoId'', JNum 42), (''targetRepoId'', JNum 42),
            (''sourceRefId'', JStr ''refs/heads/feature-branch''),
            (''targetRefId'', JStr ''refs/heads/main'')],
         request_headers = None,
         request_baseURL = Some ''https://git.example.com/rest''\<rparr>]"
  unfolding example_reviewers_request
  by (simp add: requests_returning addPullRequestCommentReaction_def
      removePullRequestCommentReaction_def verb_defs
      requests_single no_config_def digits_123 digits_456 example_plugin_baseURL)

text \<open>
  The example client: its plugin base URL, and one request with and one without the
  override.
\<close>

theorem plugin_base_path_witness:
  "\<not> contains (baseUrl example_config) ''/rest/api/latest''
   \<and> plugin_baseURL (BitbucketClient example_config) = Some ''https://git.example.com/rest''
   \<and> default_baseURL (BitbucketClient example_config)
       = Some ''https://git.example.com/rest/api/latest''
   \<and> map request_baseURL (requests (invoke scripted example_client
         (GetPullRequest ''PROJ'' ''my-repo'' 123)) (fresh [])) = [None]
   \<and> map request_baseURL (requests (invoke scripted example_client
         (GetRequiredReviewers ''PROJ'' ''my-repo'' 42 ''feature-branch'' ''main'')) (fresh []))
       = [Some ''https://git.example.com/rest'']
   \<and> map (effective_baseURL (BitbucketClient example_config))
        (requests (invoke scripted example_client
         (GetPullRequest ''PROJ'' ''my-repo'' 123)) (fresh []))
       = [Some ''https://git.example.com/rest/api/latest'']"
proof -
  have "\<not> string_includes (baseUrl example_config) ''/rest/api/latest''"
    by (simp add: example_config_def startsWith_def)
  then have clean: "\<not> contains (baseUrl example_config) ''/rest/api/latest''"
    by (simp add: string_includes_iff)
  have b: "baseUrl example_config = ''https://git.example.com''"
    by (simp add: example_config_def)
  from clean
    plugin_base_path [of scripted example_client "GetPullRequest ''PROJ'' ''my-repo'' 123"
      "fresh []" "''PROJ''" "''my-repo''" 123 456 "''thumbsup''" 42 "''feature-branch''"
      "''main''" example_config]
    plugin_base_path [of scripted example_client
      "GetRequiredReviewers ''PROJ'' ''my-repo'' 42 ''feature-branch'' ''main''"
      "fresh []" "''PROJ''" "''my-repo''" 123 456 "''thumbsup''" 42 "''feature-branch''"
      "''main''" example_config]
    example_reviewers_request example_pull_request_request
  show ?thesis
    by (simp add: b example_plugin_baseURL)
qed

end
